theory Spec2Isabelle
  imports Main "HOL-Library.Sublist"
begin

section \<open>The command executer of the agent (agent/executers/executers.go)\<close>

text \<open>
  The package launches one external command, waits for it while two observers (cancel
  and timeout) may kill it, and turns what \<open>command.Wait\<close> reports into one exit code.
  Everything the Go code asks of the operating system, of the child process and of the
  other packages of the agent is an explicit argument of the model:
  \<^item> \<open>host\<close>: what the agent's other packages supply (the constant
    \<open>appconfig.CommandStoppedPreemptivelyExitCode\<close>, \<open>os.Environ\<close>, the identity
    provider, the platform's \<open>validateEnvironmentVariables\<close>);
  \<^item> \<open>world\<close>: the files and byte buffers the code and the child write to;
  \<^item> \<open>execution\<close>: what one run of the child does and what the code observes after
    \<open>command.Wait\<close> returns (the wait error, the interrupted flag written by
    \<open>killProcess\<close>, \<open>cancelFlag.Canceled()\<close>, \<open>timer.Stop()\<close>).
  The two observer goroutines are not executed: the code reads their effect only through
  those observations, each read once after the wait.
\<close>

subsection \<open>Data\<close>

text \<open>Go's \<open>error\<close> values, as far as the code tells them apart.\<close>

datatype error =
    PathError string        \<comment> \<open>\<open>os.OpenFile\<close>, \<open>os.Open\<close> or \<open>os.Create\<close> failed on this path\<close>
  | StartError              \<comment> \<open>\<open>command.Start\<close> failed\<close>
  | ExitError "int option"  \<comment> \<open>\<open>*exec.ExitError\<close>; \<open>Some s\<close> when \<open>Sys()\<close> is a
                                \<open>syscall.WaitStatus\<close> whose \<open>ExitStatus()\<close> is \<open>s\<close>\<close>
  | WriteError              \<comment> \<open>a short write\<close>
  | OtherError              \<comment> \<open>any other error value\<close>

text \<open>
  An \<open>io.Writer\<close> handed to the command: the nil \<open>*os.File\<close>, a file opened for
  appending (named by its path), or a \<open>*bytes.Buffer\<close> (named by its address).
\<close>

datatype writer = NilFile | FileWriter string | BufferWriter nat

text \<open>An \<open>io.Reader\<close> returned by \<open>Execute\<close>.\<close>

datatype reader = NilFileReader | FileReader string | BytesReader string

text \<open>The fields of \<open>exec.Cmd\<close> the code sets.\<close>

record cmd =
  Path :: string
  Args :: "string list"
  Dir :: string
  Stdout :: writer
  Stderr :: writer
  Env :: "string list"

datatype level = Debug | Info | Error

datatype goroutine = killProcessOnCancel | killProcessOnTimeout

text \<open>
  What a call does besides computing its results, in order: log lines (the format
  string, without its arguments), the launch, the goroutines and the timer it starts,
  and the wait.
\<close>

datatype event =
    Log level string
  | Start cmd
  | Go goroutine
  | NewTimer int
  | Wait

record osfile =
  data :: string
  readable :: bool
  writable :: bool

record world =
  files :: "string \<rightharpoonup> osfile"
  creatable :: "string \<Rightarrow> bool"  \<comment> \<open>can a file be created at this path\<close>
  space :: "nat option"             \<comment> \<open>bytes a \<open>WriteString\<close> can still store; \<open>None\<close>: no limit\<close>
  bufs :: "string list"             \<comment> \<open>the allocated byte buffers, by address\<close>

text \<open>What the child process does that the code can see: it writes and it may remove files.\<close>

datatype action = WriteStdout string | WriteStderr string | Remove string

record execution =
  startErr :: "error option"          \<comment> \<open>result of \<open>command.Start()\<close>\<close>
  actions :: "action list"            \<comment> \<open>what the child does before the wait returns\<close>
  waitErr :: "error option"           \<comment> \<open>result of \<open>command.Wait()\<close>\<close>
  execInterruptedOnWindows :: bool    \<comment> \<open>\<open>signal.execInterruptedOnWindows\<close> after the wait\<close>
  Canceled :: bool                    \<comment> \<open>\<open>cancelFlag.Canceled()\<close> after the wait\<close>
  timerStop :: bool                   \<comment> \<open>result of \<open>timer.Stop()\<close>\<close>

record host =
  CommandStoppedPreemptivelyExitCode :: int
  Environ :: "string list"
  InstanceID :: "error + string"
  Region :: "error + string"
  validateEnvironmentVariables :: "string list \<Rightarrow> string list"

record result =
  exitCode :: int
  trace :: "event list"
  world_after :: world

record command_result = result +
  err :: "error option"

record facade_result = result +
  errs :: "error list"

record execute_result = facade_result +
  stdout :: "reader option"
  stderr :: "reader option"

record startexe_result = facade_result +
  process :: "cmd option"

text \<open>A call either returns or panics (a nil pointer dereference).\<close>

datatype 'a outcome = Panic | Return 'a

subsection \<open>The operating system and the child\<close>

text \<open>
  \<open>os.OpenFile(path, appconfig.FileFlagsCreateOrAppend, appconfig.ReadWriteAccess)\<close>.
  Modelled from the spec: the two constants are declared in package appconfig, which is
  not among the sources; the spec has the file opened or created "in append mode with
  fixed read/write permissions". An existing file keeps its bytes.
\<close>

definition os_OpenFile :: "world \<Rightarrow> string \<Rightarrow> error + (world \<times> writer)" where
  "os_OpenFile w path =
     (case files w path of
        Some f \<Rightarrow> if writable f then Inr (w, FileWriter path) else Inl (PathError path)
      | None \<Rightarrow>
          if creatable w path
          then Inr (w\<lparr>files := (files w)(path \<mapsto> \<lparr>data = [], readable = True, writable = True\<rparr>)\<rparr>,
                    FileWriter path)
          else Inl (PathError path))"

text \<open>\<open>os.Open(path)\<close>: open for reading.\<close>

definition os_Open :: "world \<Rightarrow> string \<Rightarrow> error + reader" where
  "os_Open w path =
     (case files w path of
        Some f \<Rightarrow> if readable f then Inr (FileReader path) else Inl (PathError path)
      | None \<Rightarrow> Inl (PathError path))"

text \<open>\<open>os.Create(path)\<close>: create the file, or truncate the one that is there.\<close>

definition os_Create :: "world \<Rightarrow> string \<Rightarrow> error + (world \<times> writer)" where
  "os_Create w path =
     (case files w path of
        Some f \<Rightarrow>
          if writable f
          then Inr (w\<lparr>files := (files w)(path \<mapsto> f\<lparr>data := []\<rparr>)\<rparr>, FileWriter path)
          else Inl (PathError path)
      | None \<Rightarrow>
          if creatable w path
          then Inr (w\<lparr>files := (files w)(path \<mapsto> \<lparr>data = [], readable = True, writable = True\<rparr>)\<rparr>,
                    FileWriter path)
          else Inl (PathError path))"

text \<open>
  \<open>fileutil.Exists(path)\<close>.
  Modelled from the spec: package fileutil is not among the sources; the spec speaks of
  the "expected output file missing". The empty path names no file.
\<close>

definition fileutil_Exists :: "world \<Rightarrow> string \<Rightarrow> bool" where
  "fileutil_Exists w path = (path \<noteq> [] \<and> files w path \<noteq> None)"

text \<open>\<open>bytes.NewBuffer(nil)\<close>: a fresh empty buffer, at the next address.\<close>

definition bytes_NewBuffer :: "world \<Rightarrow> world \<times> nat" where
  "bytes_NewBuffer w = (w\<lparr>bufs := bufs w @ [[]]\<rparr>, length (bufs w))"

definition buffer_Bytes :: "world \<Rightarrow> nat \<Rightarrow> string" where
  "buffer_Bytes w b = (if b < length (bufs w) then bufs w ! b else [])"

text \<open>
  Bytes arriving at a writer. A file that was removed takes the bytes out of sight; the
  nil file takes none.
\<close>

fun write_bytes :: "writer \<Rightarrow> string \<Rightarrow> world \<Rightarrow> world" where
  "write_bytes NilFile s w = w"
| "write_bytes (FileWriter path) s w =
     (case files w path of
        None \<Rightarrow> w
      | Some f \<Rightarrow> w\<lparr>files := (files w)(path \<mapsto> f\<lparr>data := data f @ s\<rparr>)\<rparr>)"
| "write_bytes (BufferWriter b) s w =
     (if b < length (bufs w) then w\<lparr>bufs := (bufs w)[b := bufs w ! b @ s]\<rparr> else w)"

fun perform :: "cmd \<Rightarrow> action \<Rightarrow> world \<Rightarrow> world" where
  "perform c (WriteStdout s) w = write_bytes (Stdout c) s w"
| "perform c (WriteStderr s) w = write_bytes (Stderr c) s w"
| "perform c (Remove path) w = w\<lparr>files := (files w)(path := None)\<rparr>"

definition child_run :: "cmd \<Rightarrow> action list \<Rightarrow> world \<Rightarrow> world" where
  "child_run c acts w = fold (perform c) acts w"

text \<open>The bytes a reader yields when read to its end.\<close>

fun read_all :: "world \<Rightarrow> reader \<Rightarrow> string" where
  "read_all w NilFileReader = []"
| "read_all w (FileReader path) = (case files w path of None \<Rightarrow> [] | Some f \<Rightarrow> data f)"
| "read_all w (BytesReader bs) = bs"

subsection \<open>Environment of the child\<close>

definition envVarInstanceId :: string where
  "envVarInstanceId = ''AWS_SSM_INSTANCE_ID''"

definition envVarRegionName :: string where
  "envVarRegionName = ''AWS_SSM_REGION_NAME''"

definition fmtEnvVariable :: "string \<Rightarrow> string \<Rightarrow> string" where
  "fmtEnvVariable name val = name @ ''='' @ val"

definition prepareEnvironment :: "host \<Rightarrow> cmd \<Rightarrow> cmd" where
  "prepareEnvironment h command =
     (let env = Environ h;
          env = (case InstanceID h of
                   Inr instance \<Rightarrow> env @ [fmtEnvVariable envVarInstanceId instance]
                 | Inl e \<Rightarrow> env);
          env = (case Region h of
                   Inr region \<Rightarrow> env @ [fmtEnvVariable envVarRegionName region]
                 | Inl e \<Rightarrow> env)
      in command\<lparr>Env := validateEnvironmentVariables h env\<rparr>)"

subsection \<open>ExecuteCommand and StartCommand\<close>

text \<open>
  The command as configured before the launch: lines 225-235 of \<open>ExecuteCommand\<close>, and
  the same lines 313-323 of \<open>StartCommand\<close>. \<open>prepareProcess\<close> sets only platform
  attributes of the process, which the model does not carry.
\<close>

definition configure :: "host \<Rightarrow> string \<Rightarrow> writer \<Rightarrow> writer \<Rightarrow> string \<Rightarrow> string list \<Rightarrow> cmd" where
  "configure h workingDir stdoutWriter stderrWriter commandName commandArguments =
     prepareEnvironment h
       \<lparr>Path = commandName, Args = commandName # commandArguments, Dir = workingDir,
        Stdout = stdoutWriter, Stderr = stderrWriter, Env = []\<rparr>"

definition ExecuteCommand ::
  "host \<Rightarrow> world \<Rightarrow> execution \<Rightarrow> string \<Rightarrow> writer \<Rightarrow> writer \<Rightarrow> int \<Rightarrow> string \<Rightarrow> string list
     \<Rightarrow> command_result" where
  "ExecuteCommand h w ex workingDir stdoutWriter stderrWriter executionTimeout commandName
       commandArguments =
     (let command = configure h workingDir stdoutWriter stderrWriter commandName commandArguments;
          tr = [Log Debug [], Log Debug ''Running in directory %v, command: %v %v.'',
                Log Debug [], Start command]
      in case startErr ex of
           Some e \<Rightarrow>
             \<lparr>exitCode = 1,
              trace = tr @ [Log Error ''error occurred starting the command''],
              world_after = w, err = Some e\<rparr>
         | None \<Rightarrow>
             (let tr = tr @ [Go killProcessOnCancel, NewTimer executionTimeout,
                             Go killProcessOnTimeout, Wait];
                  w = child_run command (actions ex) w;
                  timedOut = (\<not> timerStop ex);
                  (code, tr) =
                    (case waitErr ex of
                       Some e \<Rightarrow>
                         (let tr = tr @ [Log Debug ''command failed to run %v''] in
                          case e of
                            ExitError (Some status) \<Rightarrow>
                              (let (code, tr) =
                                     (if execInterruptedOnWindows ex
                                      then (- 1, tr @ [Log Debug ''command interrupted by cancel or timeout''])
                                      else (status, tr))
                               in if code = - 1
                                  then if Canceled ex
                                       then (CommandStoppedPreemptivelyExitCode h,
                                             tr @ [Log Info ''The execution of command was cancelled.''])
                                       else if timedOut
                                       then (CommandStoppedPreemptivelyExitCode h,
                                             tr @ [Log Info ''The execution of command was timedout.''])
                                       else (code, tr)
                                  else (code,
                                        tr @ [Log Info ''The execution of command returned Exit Status: %d'']))
                          | _ \<Rightarrow> (1, tr))
                     | None \<Rightarrow>
                         (0,
                          tr @ (if Canceled ex
                                then [Log Error ''the cancellation failed to stop the process.'']
                                else [])
                             @ (if timedOut
                                then [Log Error ''the timeout failed to stop the process.'']
                                else [])))
              in \<lparr>exitCode = code, trace = tr @ [Log Debug ''Done waiting!''],
                  world_after = w, err = waitErr ex\<rparr>))"

text \<open>
  \<open>StartCommand\<close> launches and returns at once: only the cancel observer is started, and
  the child has done nothing yet when the call returns. The process handle is modelled by
  the command it runs.
\<close>

definition StartCommand ::
  "host \<Rightarrow> world \<Rightarrow> execution \<Rightarrow> string \<Rightarrow> writer \<Rightarrow> writer \<Rightarrow> string \<Rightarrow> string list
     \<Rightarrow> cmd option \<times> command_result" where
  "StartCommand h w ex workingDir stdoutWriter stderrWriter commandName commandArguments =
     (let command = configure h workingDir stdoutWriter stderrWriter commandName commandArguments;
          tr = [Log Debug [], Log Debug ''Running in directory %v, command: %v %v.'',
                Log Debug [], Start command]
      in case startErr ex of
           Some e \<Rightarrow>
             (None,
              \<lparr>exitCode = 1,
               trace = tr @ [Log Error ''error occurred starting the command: ''],
               world_after = w, err = Some e\<rparr>)
         | None \<Rightarrow>
             (Some command,
              \<lparr>exitCode = 0, trace = tr @ [Go killProcessOnCancel],
               world_after = w, err = None\<rparr>))"

subsection \<open>Execute and StartExe\<close>

text \<open>
  \<open>Execute\<close> has the same code twice, once for stdout and once for stderr, before and
  after the command runs; the model has each block once.

  Lines 73-88 and 90-105: the writer of a stream and its buffer pointer. With a file path
  the buffer pointer stays nil (\<open>None\<close>); a failed open makes \<open>Execute\<close> return (\<open>Inl\<close>).
\<close>

definition openOutput :: "world \<Rightarrow> string \<Rightarrow> world + (world \<times> writer \<times> nat option)" where
  "openOutput w filePath =
     (if filePath \<noteq> []
      then (case os_OpenFile w filePath of
              Inl e \<Rightarrow> Inl w
            | Inr (w, fileWriter) \<Rightarrow> Inr (w, fileWriter, None))
      else (let (w, b) = bytes_NewBuffer w in Inr (w, BufferWriter b, Some b)))"

text \<open>
  Lines 118-127 and 129-138: the reader of a stream, and the error set with the error of a
  failed \<open>os.Open\<close> appended. \<open>stdoutBuf.Bytes()\<close> on a nil pointer panics.
\<close>

definition readOutput ::
  "world \<Rightarrow> string \<Rightarrow> nat option \<Rightarrow> error list \<Rightarrow> (reader \<times> error list) outcome" where
  "readOutput w filePath buf es =
     (if fileutil_Exists w filePath
      then (case os_Open w filePath of
              Inr f \<Rightarrow> Return (f, es)
            | Inl e \<Rightarrow> Return (NilFileReader, es @ [e]))
      else (case buf of
              None \<Rightarrow> Panic
            | Some b \<Rightarrow> Return (BytesReader (buffer_Bytes w b), es)))"

text \<open>
  \<open>Execute\<close> returns its named results \<open>(stdout, stderr, exitCode, errs)\<close>; a bare
  \<open>return\<close> before they are assigned returns their zero values.
\<close>

definition Execute ::
  "host \<Rightarrow> world \<Rightarrow> execution \<Rightarrow> string \<Rightarrow> string \<Rightarrow> string \<Rightarrow> int \<Rightarrow> string \<Rightarrow> string list
     \<Rightarrow> execute_result outcome" where
  "Execute h w ex workingDir stdoutFilePath stderrFilePath executionTimeout commandName
       commandArguments =
     (let zero = (\<lambda>w. Return \<lparr>exitCode = 0, trace = [], world_after = w, errs = [],
                               stdout = None, stderr = None\<rparr>)
      in
      case openOutput w stdoutFilePath of
        Inl w \<Rightarrow> zero w
      | Inr (w, stdoutWriter, stdoutBuf) \<Rightarrow>
      (case openOutput w stderrFilePath of
         Inl w \<Rightarrow> zero w
       | Inr (w, stderrWriter, stderrBuf) \<Rightarrow>
       (let r = ExecuteCommand h w ex workingDir stdoutWriter stderrWriter executionTimeout
                  commandName commandArguments;
            es = (case err r of Some e \<Rightarrow> [e] | None \<Rightarrow> []);
            w = world_after r
        in
        case readOutput w stdoutFilePath stdoutBuf es of
          Panic \<Rightarrow> Panic
        | Return (stdoutReader, es) \<Rightarrow>
        (case readOutput w stderrFilePath stderrBuf es of
           Panic \<Rightarrow> Panic
         | Return (stderrReader, es) \<Rightarrow>
             Return \<lparr>exitCode = exitCode r, trace = trace r, world_after = w, errs = es,
                     stdout = Some stdoutReader, stderr = Some stderrReader\<rparr>))))"

text \<open>
  \<open>StartExe\<close> declares \<open>var stdoutWriter, stderrWriter *os.File\<close> (both nil) and then,
  inside each \<open>if\<close>, \<open>stdoutWriter, err := os.OpenFile(...)\<close>: the \<open>:=\<close> declares a new
  variable of that name for the block. The case patterns below bind it the same way; the
  writers handed to \<open>StartCommand\<close> are the outer ones.
\<close>

definition StartExe ::
  "host \<Rightarrow> world \<Rightarrow> execution \<Rightarrow> string \<Rightarrow> string \<Rightarrow> string \<Rightarrow> string \<Rightarrow> string list
     \<Rightarrow> startexe_result" where
  "StartExe h w ex workingDir stdoutFilePath stderrFilePath commandName commandArguments =
     (let zero = (\<lambda>w. \<lparr>exitCode = 0, trace = [], world_after = w, errs = [],
                        process = None\<rparr>);
          stdoutWriter = NilFile;
          stderrWriter = NilFile
      in
      case (if stdoutFilePath \<noteq> []
            then (case os_OpenFile w stdoutFilePath of
                    Inl e \<Rightarrow> Inl w
                  | Inr (w, stdoutWriter) \<Rightarrow> Inr w)
            else Inr w)
      of
        Inl w \<Rightarrow> zero w
      | Inr w \<Rightarrow>
      (case (if stderrFilePath \<noteq> []
             then (case os_OpenFile w stderrFilePath of
                     Inl e \<Rightarrow> Inl w
                   | Inr (w, stderrWriter) \<Rightarrow> Inr w)
             else Inr w)
       of
         Inl w \<Rightarrow> zero w
       | Inr w \<Rightarrow>
       (let (p, r) = StartCommand h w ex workingDir stdoutWriter stderrWriter commandName
                       commandArguments
        in \<lparr>exitCode = exitCode r, trace = trace r, world_after = world_after r,
            errs = (case err r of Some e \<Rightarrow> [e] | None \<Rightarrow> []),
            process = p\<rparr>)))"

subsection \<open>CreateScriptFile\<close>

definition newline :: string where
  "newline = [CHR 0x0A]"

text \<open>Go's \<open>strings.Join\<close>.\<close>

fun strings_Join :: "string list \<Rightarrow> string \<Rightarrow> string" where
  "strings_Join [] sep = []"
| "strings_Join [a] sep = a"
| "strings_Join (a # b # bs) sep = a @ sep @ strings_Join (b # bs) sep"

text \<open>
  \<open>file.WriteString(s)\<close>: all of \<open>s\<close> is stored and no error is returned, or only what
  fits is stored and the error of a short write is returned.
\<close>

definition file_WriteString :: "world \<Rightarrow> writer \<Rightarrow> string \<Rightarrow> world \<times> error option" where
  "file_WriteString w f s =
     (case space w of
        None \<Rightarrow> (write_bytes f s w, None)
      | Some n \<Rightarrow>
          if length s \<le> n
          then (write_bytes f s (w\<lparr>space := Some (n - length s)\<rparr>), None)
          else (write_bytes f (take n s) (w\<lparr>space := Some 0\<rparr>), Some WriteError))"

definition CreateScriptFile :: "world \<Rightarrow> string \<Rightarrow> string list \<Rightarrow> error option \<times> world" where
  "CreateScriptFile w scriptPath commands =
     (case os_Create w scriptPath of
        Inl e \<Rightarrow> (Some e, w)
      | Inr (w, file) \<Rightarrow>
          (let (w, e) = file_WriteString w file (strings_Join commands newline @ newline)
           in (e, w)))"

subsection \<open>Reading a result, and concrete inputs\<close>

text \<open>The bytes the returned stdout and stderr readers yield, when the call returned readers.\<close>

definition stdout_bytes :: "execute_result outcome \<Rightarrow> string option" where
  "stdout_bytes out =
     (case out of
        Panic \<Rightarrow> None
      | Return r \<Rightarrow>
          (case stdout r of None \<Rightarrow> None | Some rd \<Rightarrow> Some (read_all (world_after r) rd)))"

definition stderr_bytes :: "execute_result outcome \<Rightarrow> string option" where
  "stderr_bytes out =
     (case out of
        Panic \<Rightarrow> None
      | Return r \<Rightarrow>
          (case stderr r of None \<Rightarrow> None | Some rd \<Rightarrow> Some (read_all (world_after r) rd)))"

text \<open>The bytes that can be read from the file at a path; none if there is no such file.\<close>

definition held :: "world \<Rightarrow> string \<Rightarrow> string" where
  "held w path =
     (case files w path of
        None \<Rightarrow> []
      | Some f \<Rightarrow> if readable f then data f else [])"

text \<open>
  A host whose identity lookups succeed and whose platform leaves the environment as it
  is, with 137 for the preemptive-stop exit code; a world with no files where any file
  can be created; an execution that starts, does nothing and exits with status 0, with no
  cancel and no timeout.
\<close>

definition host0 :: host where
  "host0 = \<lparr>CommandStoppedPreemptivelyExitCode = 137, Environ = [''PATH=/usr/bin''],
            InstanceID = Inr ''i-0abc'', Region = Inr ''us-east-1'',
            validateEnvironmentVariables = (\<lambda>env. env)\<rparr>"

definition world0 :: world where
  "world0 = \<lparr>files = Map.empty, creatable = (\<lambda>path. True), space = None, bufs = []\<rparr>"

definition execution0 :: execution where
  "execution0 = \<lparr>startErr = None, actions = [], waitErr = None,
                 execInterruptedOnWindows = False, Canceled = False, timerStop = True\<rparr>"

section \<open>Properties\<close>

subsection \<open>Shared facts about Execute\<close>

lemma readOutput_errors:
  "readOutput w path buf es = Return (rd, es') \<Longrightarrow> set es' \<subseteq> set es \<union> range PathError"
  by (auto simp: readOutput_def os_Open_def split: if_splits sum.splits option.splits)

lemma Execute_Return_cases:
  assumes "Execute h w ex dir so se t n a = Return r"
  shows "(exitCode r = 0 \<and> trace r = [] \<and> errs r = [] \<and> stdout r = None \<and> stderr r = None)
     \<or> (\<exists>w1 ow ob w2 ew eb rd1 es1 rd2 es2.
           openOutput w so = Inr (w1, ow, ob) \<and> openOutput w1 se = Inr (w2, ew, eb) \<and>
           readOutput (world_after (ExecuteCommand h w2 ex dir ow ew t n a)) so ob
             (case err (ExecuteCommand h w2 ex dir ow ew t n a) of Some e \<Rightarrow> [e] | None \<Rightarrow> [])
             = Return (rd1, es1) \<and>
           readOutput (world_after (ExecuteCommand h w2 ex dir ow ew t n a)) se eb es1
             = Return (rd2, es2) \<and>
           exitCode r = exitCode (ExecuteCommand h w2 ex dir ow ew t n a) \<and>
           trace r = trace (ExecuteCommand h w2 ex dir ow ew t n a) \<and>
           world_after r = world_after (ExecuteCommand h w2 ex dir ow ew t n a) \<and>
           errs r = es2 \<and> stdout r = Some rd1 \<and> stderr r = Some rd2)"
  using assms unfolding Execute_def Let_def
  by (auto split: sum.splits prod.splits outcome.splits)

lemma ExecuteCommand_clean:
  assumes "startErr ex = None" and "waitErr ex = None"
  shows "exitCode (ExecuteCommand h w ex dir ow ew t n a) = 0"
    and "err (ExecuteCommand h w ex dir ow ew t n a) = None"
  using assms by (simp_all add: ExecuteCommand_def Let_def)

subsection \<open>A launch that fails\<close>

text \<open>
  Opening the outputs leaves the readable bytes of every file as they were, and a launch that
  fails runs no child: what \<open>Execute\<close> reads back is what was there before.
\<close>

lemma launch_failed_command:
  "startErr ex = Some e \<Longrightarrow>
   ExecuteCommand h w ex dir ow ew t n a =
     \<lparr>exitCode = 1,
      trace = [Log Debug [], Log Debug ''Running in directory %v, command: %v %v.'',
               Log Debug [], Start (configure h dir ow ew n a),
               Log Error ''error occurred starting the command''],
      world_after = w, err = Some e\<rparr>"
  by (simp add: ExecuteCommand_def Let_def)

lemma openOutput_facts:
  assumes "openOutput w p = Inr (w', wr, b)"
  shows "held w' q = held w q"
    and "files w q \<noteq> None \<Longrightarrow> files w' q \<noteq> None"
    and "p \<noteq> [] \<Longrightarrow> files w' p \<noteq> None"
    and "p \<noteq> [] \<Longrightarrow> bufs w' = bufs w"
    and "p = [] \<Longrightarrow> b = Some (length (bufs w)) \<and> bufs w' = bufs w @ [[]]"
  using assms
  by (auto simp: openOutput_def os_OpenFile_def bytes_NewBuffer_def held_def
      split: if_splits option.splits sum.splits)

lemma readOutput_file:
  assumes "readOutput w p b es = Return (rd, es')" and "p \<noteq> []" and "files w p \<noteq> None"
  shows "read_all w rd = held w p" and "set es \<subseteq> set es'"
  using assms
  by (auto simp: readOutput_def fileutil_Exists_def os_Open_def held_def
      split: if_splits option.splits sum.splits)

lemma readOutput_buffer:
  assumes "readOutput w [] (Some b) es = Return (rd, es')"
  shows "read_all w rd = buffer_Bytes w b" and "es' = es"
  using assms by (auto simp: readOutput_def fileutil_Exists_def)

lemma readOutput_keeps:
  "readOutput w p b es = Return (rd, es') \<Longrightarrow> set es \<subseteq> set es'"
  by (auto simp: readOutput_def split: if_splits option.splits sum.splits)

lemma readOutput_no_panic:
  assumes "p \<noteq> [] \<longrightarrow> files w p \<noteq> None" and "p = [] \<longrightarrow> b \<noteq> None"
  shows "\<exists>rd es'. readOutput w p b es = Return (rd, es')"
  using assms
  by (auto simp: readOutput_def fileutil_Exists_def split: sum.splits option.splits)

lemma launch_failed_no_panic:
  assumes "startErr ex = Some e"
  shows "Execute h w ex dir so se t n a \<noteq> Panic"
proof (cases "openOutput w so")
  case (Inl w1)
  then show ?thesis by (simp add: Execute_def)
next
  case (Inr x)
  then obtain w1 ow ob where o1: "openOutput w so = Inr (w1, ow, ob)"
    by (cases x) auto
  show ?thesis
  proof (cases "openOutput w1 se")
    case (Inl w2)
    then show ?thesis using o1 by (simp add: Execute_def)
  next
    case (Inr y)
    then obtain w2 ew eb where o2: "openOutput w1 se = Inr (w2, ew, eb)"
      by (cases y) auto
    have "so \<noteq> [] \<longrightarrow> files w2 so \<noteq> None"
      using openOutput_facts(3) [OF o1] openOutput_facts(2) [OF o2] by blast
    moreover have "so = [] \<longrightarrow> ob \<noteq> None"
      using openOutput_facts(5) [OF o1] by simp
    ultimately obtain rd1 es1 where r1: "readOutput w2 so ob [e] = Return (rd1, es1)"
      using readOutput_no_panic by blast
    have "se \<noteq> [] \<longrightarrow> files w2 se \<noteq> None"
      using openOutput_facts(3) [OF o2] by blast
    moreover have "se = [] \<longrightarrow> eb \<noteq> None"
      using openOutput_facts(5) [OF o2] by simp
    ultimately obtain rd2 es2 where r2: "readOutput w2 se eb es1 = Return (rd2, es2)"
      using readOutput_no_panic by blast
    show ?thesis
      using o1 o2 r1 r2
      by (simp add: Execute_def Let_def launch_failed_command [OF assms])
  qed
qed

lemma launch_failed_facade:
  assumes fail: "startErr ex = Some e"
    and ret: "Execute h w ex dir so se t n a = Return r"
    and launched: "\<exists>c. Start c \<in> set (trace r)"
  shows "exitCode r = 1 \<and> e \<in> set (errs r)
     \<and> stdout_bytes (Return r) = Some (if so = [] then [] else held w so)
     \<and> stderr_bytes (Return r) = Some (if se = [] then [] else held w se)"
  using Execute_Return_cases [OF ret]
proof (elim disjE exE conjE)
  assume "trace r = []"
  with launched show ?thesis by simp
next
  fix w1 ow ob w2 ew eb rd1 es1 rd2 es2
  assume o1: "openOutput w so = Inr (w1, ow, ob)"
    and o2: "openOutput w1 se = Inr (w2, ew, eb)"
    and r1': "readOutput (world_after (ExecuteCommand h w2 ex dir ow ew t n a)) so ob
             (case err (ExecuteCommand h w2 ex dir ow ew t n a) of Some e \<Rightarrow> [e] | None \<Rightarrow> [])
             = Return (rd1, es1)"
    and r2': "readOutput (world_after (ExecuteCommand h w2 ex dir ow ew t n a)) se eb es1
             = Return (rd2, es2)"
    and code: "exitCode r = exitCode (ExecuteCommand h w2 ex dir ow ew t n a)"
    and wa: "world_after r = world_after (ExecuteCommand h w2 ex dir ow ew t n a)"
    and es: "errs r = es2"
    and out: "stdout r = Some rd1"
    and er: "stderr r = Some rd2"
  note c = launch_failed_command [OF fail, of h w2 dir ow ew t n a]
  have r1: "readOutput w2 so ob [e] = Return (rd1, es1)"
    using r1' by (simp add: c)
  have r2: "readOutput w2 se eb es1 = Return (rd2, es2)"
    using r2' by (simp add: c)
  have w: "world_after r = w2" and code1: "exitCode r = 1"
    using wa code by (simp_all add: c)
  have b1: "read_all w2 rd1 = (if so = [] then [] else held w so)"
  proof (cases "so = []")
    case True
    have ob: "ob = Some (length (bufs w))" and b: "bufs w1 = bufs w @ [[]]"
      using openOutput_facts(5) [OF o1 True] by simp_all
    have "buffer_Bytes w2 (length (bufs w)) = []"
      using b openOutput_facts(4) [OF o2] openOutput_facts(5) [OF o2]
      by (cases "se = []") (simp_all add: buffer_Bytes_def nth_append)
    then show ?thesis
      using readOutput_buffer(1) [of w2 "length (bufs w)" "[e]" rd1 es1] r1 True ob by simp
  next
    case False
    have "files w2 so \<noteq> None"
      using openOutput_facts(3) [OF o1 False] openOutput_facts(2) [OF o2] by blast
    then have "read_all w2 rd1 = held w2 so"
      using readOutput_file(1) [OF r1 False] by simp
    then show ?thesis
      using False openOutput_facts(1) [OF o1] openOutput_facts(1) [OF o2] by simp
  qed
  have e2: "e \<in> set es2"
    using readOutput_keeps [OF r1] readOutput_keeps [OF r2] by auto
  have b2: "read_all w2 rd2 = (if se = [] then [] else held w se)"
  proof (cases "se = []")
    case True
    have eb: "eb = Some (length (bufs w1))" and b: "bufs w2 = bufs w1 @ [[]]"
      using openOutput_facts(5) [OF o2 True] by simp_all
    have "buffer_Bytes w2 (length (bufs w1)) = []"
      using b by (simp add: buffer_Bytes_def)
    then show ?thesis
      using readOutput_buffer(1) [of w2 "length (bufs w1)" es1 rd2 es2] r2 True eb by simp
  next
    case False
    have "read_all w2 rd2 = held w2 se"
      using readOutput_file(1) [OF r2 False] openOutput_facts(3) [OF o2 False] by simp
    then show ?thesis
      using False openOutput_facts(1) [OF o1] openOutput_facts(1) [OF o2] by simp
  qed
  show ?thesis
    using code1 e2 es b1 b2 w out er by (simp add: stdout_bytes_def stderr_bytes_def)
qed

subsection \<open>Exit-code normalization\<close>

text \<open>
  Claim C1. When the wait returns an exit error whose status, after the interrupted flag has
  been applied, is -1 (the flag is set, or the status is -1 itself), the exit code is the
  preemptive-stop code if the cancel flag is set; otherwise, if the timer had fired
  (\<open>timer.Stop()\<close> returned false), the same code; otherwise -1.
\<close>

theorem ExecuteCommand_killed_exit_code:
  assumes "startErr ex = None"
    and "waitErr ex = Some (ExitError (Some status))"
    and "execInterruptedOnWindows ex \<or> status = - 1"
  shows "exitCode (ExecuteCommand h w ex dir ow ew t n a) =
           (if Canceled ex then CommandStoppedPreemptivelyExitCode h
            else if \<not> timerStop ex then CommandStoppedPreemptivelyExitCode h
            else - 1)"
  using assms by (auto simp: ExecuteCommand_def Let_def)

theorem ExecuteCommand_killed_exit_code_witness:
  "exitCode (ExecuteCommand host0 world0
       (execution0\<lparr>waitErr := Some (ExitError (Some (- 1))), Canceled := True\<rparr>)
       ''/tmp'' NilFile NilFile 10 ''sleep'' [''30'']) = 137
   \<and> exitCode (ExecuteCommand host0 world0
       (execution0\<lparr>waitErr := Some (ExitError (Some 1)), execInterruptedOnWindows := True,
                    timerStop := False\<rparr>)
       ''/tmp'' NilFile NilFile 10 ''sleep'' [''30'']) = 137
   \<and> exitCode (ExecuteCommand host0 world0
       (execution0\<lparr>waitErr := Some (ExitError (Some (- 1)))\<rparr>)
       ''/tmp'' NilFile NilFile 10 ''sleep'' [''30'']) = - 1"
  using
    ExecuteCommand_killed_exit_code
      [of "execution0\<lparr>waitErr := Some (ExitError (Some (- 1))), Canceled := True\<rparr>" "- 1"
          host0 world0 "''/tmp''" NilFile NilFile 10 "''sleep''" "[''30'']"]
    ExecuteCommand_killed_exit_code
      [of "execution0\<lparr>waitErr := Some (ExitError (Some 1)), execInterruptedOnWindows := True,
                       timerStop := False\<rparr>" 1
          host0 world0 "''/tmp''" NilFile NilFile 10 "''sleep''" "[''30'']"]
    ExecuteCommand_killed_exit_code
      [of "execution0\<lparr>waitErr := Some (ExitError (Some (- 1)))\<rparr>" "- 1"
          host0 world0 "''/tmp''" NilFile NilFile 10 "''sleep''" "[''30'']"]
  by (simp add: execution0_def host0_def)

text \<open>
  Claim C2, as stated: the result exit code is the status of the exit error, or -1 when the
  interrupted flag is set. It fails where that value is -1 and the cancel flag is set or
  the timer had fired: a status of -1 under a cancel, and a status of 3 with the
  interrupted flag after a timeout, both give 137, the preemptive-stop code of this host.
\<close>

theorem ExecuteCommand_status_counterexample:
  "exitCode (ExecuteCommand host0 world0
       (execution0\<lparr>waitErr := Some (ExitError (Some (- 1))), Canceled := True\<rparr>)
       ''/tmp'' NilFile NilFile 10 ''sleep'' [''30'']) = 137
   \<and> exitCode (ExecuteCommand host0 world0
       (execution0\<lparr>waitErr := Some (ExitError (Some 3)), execInterruptedOnWindows := True,
                    timerStop := False\<rparr>)
       ''/tmp'' NilFile NilFile 10 ''sleep'' [''30'']) = 137"
  by (simp add: ExecuteCommand_def Let_def execution0_def host0_def)

text \<open>
  Claim C2, amended. The exit code before the cancel and timeout handling is the status of
  the exit error, or -1 when the interrupted flag is set; the result is that value, except
  that a -1 becomes the preemptive-stop code when the cancel flag is set or the timer had
  fired.
\<close>

theorem ExecuteCommand_status_exit_code:
  assumes "startErr ex = None"
    and "waitErr ex = Some (ExitError (Some status))"
  shows "exitCode (ExecuteCommand h w ex dir ow ew t n a) =
           (let code = (if execInterruptedOnWindows ex then - 1 else status)
            in if code = - 1 \<and> (Canceled ex \<or> \<not> timerStop ex)
               then CommandStoppedPreemptivelyExitCode h
               else code)"
  using assms by (auto simp: ExecuteCommand_def Let_def)

theorem ExecuteCommand_status_exit_code_witness:
  "exitCode (ExecuteCommand host0 world0
       (execution0\<lparr>waitErr := Some (ExitError (Some 2))\<rparr>)
       ''/tmp'' NilFile NilFile 10 ''false'' []) = 2
   \<and> exitCode (ExecuteCommand host0 world0
       (execution0\<lparr>waitErr := Some (ExitError (Some 2)), execInterruptedOnWindows := True\<rparr>)
       ''/tmp'' NilFile NilFile 10 ''false'' []) = - 1
   \<and> exitCode (ExecuteCommand host0 world0
       (execution0\<lparr>waitErr := Some (ExitError (Some 2)), execInterruptedOnWindows := True,
                    Canceled := True\<rparr>)
       ''/tmp'' NilFile NilFile 10 ''false'' []) = 137"
  using
    ExecuteCommand_status_exit_code
      [of "execution0\<lparr>waitErr := Some (ExitError (Some 2))\<rparr>" 2
          host0 world0 "''/tmp''" NilFile NilFile 10 "''false''" "[]"]
    ExecuteCommand_status_exit_code
      [of "execution0\<lparr>waitErr := Some (ExitError (Some 2)), execInterruptedOnWindows := True\<rparr>" 2
          host0 world0 "''/tmp''" NilFile NilFile 10 "''false''" "[]"]
    ExecuteCommand_status_exit_code
      [of "execution0\<lparr>waitErr := Some (ExitError (Some 2)), execInterruptedOnWindows := True,
                       Canceled := True\<rparr>" 2
          host0 world0 "''/tmp''" NilFile NilFile 10 "''false''" "[]"]
  by (simp add: execution0_def host0_def)

text \<open>
  Claim C3. When the wait returns no error, \<open>ExecuteCommand\<close> returns exit code 0 and no
  error, whether or not the cancel flag is set or the timer had fired; each of the two is
  reported by one error line in the log and by nothing else. \<open>Execute\<close> then returns
  exit code 0, and its error set holds nothing but errors of opening an output file for
  reading.
\<close>

theorem ExecuteCommand_clean_exit:
  assumes "startErr ex = None" and "waitErr ex = None"
  shows "exitCode (ExecuteCommand h w ex dir ow ew t n a) = 0
     \<and> err (ExecuteCommand h w ex dir ow ew t n a) = None
     \<and> (Log Error ''the cancellation failed to stop the process.''
            \<in> set (trace (ExecuteCommand h w ex dir ow ew t n a)) \<longleftrightarrow> Canceled ex)
     \<and> (Log Error ''the timeout failed to stop the process.''
            \<in> set (trace (ExecuteCommand h w ex dir ow ew t n a)) \<longleftrightarrow> \<not> timerStop ex)
     \<and> (\<forall>r. Execute h w ex dir so se t n a = Return r \<longrightarrow>
            exitCode r = 0 \<and> set (errs r) \<subseteq> range PathError)"
proof -
  have logs: "(Log Error ''the cancellation failed to stop the process.''
            \<in> set (trace (ExecuteCommand h w ex dir ow ew t n a)) \<longleftrightarrow> Canceled ex)
     \<and> (Log Error ''the timeout failed to stop the process.''
            \<in> set (trace (ExecuteCommand h w ex dir ow ew t n a)) \<longleftrightarrow> \<not> timerStop ex)"
    using assms by (simp add: ExecuteCommand_def Let_def)
  have facade: "exitCode r = 0 \<and> set (errs r) \<subseteq> range PathError"
    if ret: "Execute h w ex dir so se t n a = Return r" for r
    using Execute_Return_cases [OF ret]
  proof (elim disjE exE conjE)
    assume "exitCode r = 0" and "errs r = []"
    then show ?thesis by simp
  next
    fix w1 ow' ob w2 ew' eb rd1 es1 rd2 es2
    assume r1: "readOutput (world_after (ExecuteCommand h w2 ex dir ow' ew' t n a)) so ob
             (case err (ExecuteCommand h w2 ex dir ow' ew' t n a) of Some e \<Rightarrow> [e] | None \<Rightarrow> [])
             = Return (rd1, es1)"
      and r2: "readOutput (world_after (ExecuteCommand h w2 ex dir ow' ew' t n a)) se eb es1
             = Return (rd2, es2)"
      and code: "exitCode r = exitCode (ExecuteCommand h w2 ex dir ow' ew' t n a)"
      and es: "errs r = es2"
    have "set es1 \<subseteq> range PathError"
      using readOutput_errors [OF r1] ExecuteCommand_clean(2) [OF assms] by simp
    then have "set es2 \<subseteq> range PathError"
      using readOutput_errors [OF r2] by blast
    then show ?thesis
      using code es ExecuteCommand_clean(1) [OF assms] by simp
  qed
  show ?thesis
    using ExecuteCommand_clean [OF assms] logs facade by blast
qed

theorem ExecuteCommand_clean_exit_witness:
  "exitCode (ExecuteCommand host0 world0 (execution0\<lparr>Canceled := True, timerStop := False\<rparr>)
       ''/tmp'' NilFile NilFile 10 ''true'' []) = 0
   \<and> err (ExecuteCommand host0 world0 (execution0\<lparr>Canceled := True, timerStop := False\<rparr>)
       ''/tmp'' NilFile NilFile 10 ''true'' []) = None
   \<and> Log Error ''the cancellation failed to stop the process.''
        \<in> set (trace (ExecuteCommand host0 world0
             (execution0\<lparr>Canceled := True, timerStop := False\<rparr>)
             ''/tmp'' NilFile NilFile 10 ''true'' []))
   \<and> (\<exists>r. Execute host0 world0 (execution0\<lparr>Canceled := True, timerStop := False\<rparr>)
             ''/tmp'' [] [] 10 ''true'' [] = Return r \<and> exitCode r = 0 \<and> errs r = [])"
proof -
  have run: "\<exists>r. Execute host0 world0 (execution0\<lparr>Canceled := True, timerStop := False\<rparr>)
             ''/tmp'' [] [] 10 ''true'' [] = Return r \<and> errs r = []"
    by (simp add: Execute_def openOutput_def readOutput_def bytes_NewBuffer_def
        fileutil_Exists_def ExecuteCommand_def Let_def execution0_def world0_def)
  show ?thesis
    using run
      ExecuteCommand_clean_exit
        [of "execution0\<lparr>Canceled := True, timerStop := False\<rparr>"
            host0 world0 "''/tmp''" NilFile NilFile 10 "''true''" "[]" "[]" "[]"]
    by (auto simp: execution0_def)
qed

text \<open>
  Claim C4. When the exit error carries a status other than -1 and the interrupted flag is
  not set, the exit code is that status, whatever the cancel flag and the timer say.
\<close>

theorem ExecuteCommand_other_status_verbatim:
  assumes "startErr ex = None"
    and "waitErr ex = Some (ExitError (Some status))"
    and "status \<noteq> - 1"
    and "\<not> execInterruptedOnWindows ex"
  shows "exitCode (ExecuteCommand h w ex dir ow ew t n a) = status"
  using assms by (simp add: ExecuteCommand_def Let_def)

theorem ExecuteCommand_other_status_verbatim_witness:
  "exitCode (ExecuteCommand host0 world0
       (execution0\<lparr>waitErr := Some (ExitError (Some 3)), Canceled := True, timerStop := False\<rparr>)
       ''/tmp'' NilFile NilFile 10 ''sh'' [''-c'', ''exit 3'']) = 3"
  using
    ExecuteCommand_other_status_verbatim
      [of "execution0\<lparr>waitErr := Some (ExitError (Some 3)), Canceled := True,
                       timerStop := False\<rparr>" 3
          host0 world0 "''/tmp''" NilFile NilFile 10 "''sh''" "[''-c'', ''exit 3'']"]
  by (simp add: execution0_def)

subsection \<open>Launch failure and the output files\<close>

text \<open>
  Claim C5, as stated: when the launch fails, the readers \<open>Execute\<close> returns yield zero
  bytes. It fails for an output file that already holds bytes: the file is opened for
  appending, so the stdout reader yields the old bytes.
\<close>

theorem Execute_launch_failed_counterexample:
  "startErr (execution0\<lparr>startErr := Some StartError\<rparr>) = Some StartError
   \<and> stdout_bytes
        (Execute host0
           (world0\<lparr>files := [''out.log'' \<mapsto> \<lparr>data = ''old'', readable = True, writable = True\<rparr>]\<rparr>)
           (execution0\<lparr>startErr := Some StartError\<rparr>)
           ''/tmp'' ''out.log'' [] 10 ''nosuchcmd'' [])
       = Some ''old''"
  by (simp add: stdout_bytes_def Execute_def openOutput_def readOutput_def os_OpenFile_def
      os_Open_def fileutil_Exists_def bytes_NewBuffer_def buffer_Bytes_def
      ExecuteCommand_def Let_def execution0_def world0_def)

text \<open>
  Claim C5, amended. When the launch fails, \<open>ExecuteCommand\<close> returns exit code 1 and the
  launch error, and starts no goroutine and no timer. \<open>Execute\<close> does not panic; when it
  got as far as the launch, it returns exit code 1, the launch error is in its error set,
  and the reader of a stream yields zero bytes if the stream has no file path, and
  otherwise the bytes that could be read from the file at that path before the call (none
  if there was no such file).
\<close>

theorem Execute_launch_failed:
  assumes "startErr ex = Some e"
  shows "exitCode (ExecuteCommand h w ex dir ow ew t n a) = 1
     \<and> err (ExecuteCommand h w ex dir ow ew t n a) = Some e
     \<and> (\<forall>g. Go g \<notin> set (trace (ExecuteCommand h w ex dir ow ew t n a)))
     \<and> (\<forall>d. NewTimer d \<notin> set (trace (ExecuteCommand h w ex dir ow ew t n a)))
     \<and> Execute h w ex dir so se t n a \<noteq> Panic
     \<and> (\<forall>r. Execute h w ex dir so se t n a = Return r \<and> (\<exists>c. Start c \<in> set (trace r)) \<longrightarrow>
            exitCode r = 1 \<and> e \<in> set (errs r)
            \<and> stdout_bytes (Return r) = Some (if so = [] then [] else held w so)
            \<and> stderr_bytes (Return r) = Some (if se = [] then [] else held w se))"
proof -
  have "exitCode (ExecuteCommand h w ex dir ow ew t n a) = 1
     \<and> err (ExecuteCommand h w ex dir ow ew t n a) = Some e
     \<and> (\<forall>g. Go g \<notin> set (trace (ExecuteCommand h w ex dir ow ew t n a)))
     \<and> (\<forall>d. NewTimer d \<notin> set (trace (ExecuteCommand h w ex dir ow ew t n a)))"
    by (simp add: launch_failed_command [OF assms])
  then show ?thesis
    using launch_failed_no_panic [OF assms] launch_failed_facade [OF assms]
    by blast
qed

theorem Execute_launch_failed_witness:
  "exitCode (ExecuteCommand host0 world0 (execution0\<lparr>startErr := Some StartError\<rparr>)
       ''/tmp'' NilFile NilFile 10 ''nosuchcmd'' []) = 1
   \<and> (\<exists>r. Execute host0
             (world0\<lparr>files := [''err.log'' \<mapsto> \<lparr>data = ''before'', readable = True, writable = True\<rparr>]\<rparr>)
             (execution0\<lparr>startErr := Some StartError\<rparr>)
             ''/tmp'' [] ''err.log'' 10 ''nosuchcmd'' [] = Return r
          \<and> exitCode r = 1 \<and> StartError \<in> set (errs r)
          \<and> stdout_bytes (Return r) = Some []
          \<and> stderr_bytes (Return r) = Some ''before'')"
proof -
  let ?w = "world0\<lparr>files := [''err.log'' \<mapsto> \<lparr>data = ''before'', readable = True, writable = True\<rparr>]\<rparr>"
  let ?ex = "execution0\<lparr>startErr := Some StartError\<rparr>"
  have fail: "startErr ?ex = Some StartError"
    by simp
  have run: "\<exists>r. Execute host0 ?w ?ex ''/tmp'' [] ''err.log'' 10 ''nosuchcmd'' [] = Return r
                 \<and> (\<exists>c. Start c \<in> set (trace r))"
    by (simp add: Execute_def openOutput_def readOutput_def os_OpenFile_def
        os_Open_def fileutil_Exists_def bytes_NewBuffer_def buffer_Bytes_def
        ExecuteCommand_def Let_def execution0_def world0_def)
  have before: "held ?w ''err.log'' = ''before''"
    by (simp add: held_def)
  show ?thesis
    using run before
      Execute_launch_failed
        [OF fail, of host0 world0 "''/tmp''" NilFile NilFile 10 "''nosuchcmd''" "[]" "[]" "[]"]
      Execute_launch_failed
        [OF fail, of host0 ?w "''/tmp''" NilFile NilFile 10 "''nosuchcmd''" "[]" "[]" "''err.log''"]
    by auto
qed

text \<open>
  Claim C6 says that a failed open of an output file puts the error into the returned error
  set. At this input the stdout file cannot be created, and \<open>Execute\<close> returns the zero
  values with an empty error set and exit code 0; nothing was launched.
\<close>

theorem Execute_open_failure_swallowed:
  "os_OpenFile (world0\<lparr>creatable := (\<lambda>path. False)\<rparr>) ''/nodir/out.log''
     = Inl (PathError ''/nodir/out.log'')
   \<and> (\<exists>r. Execute host0 (world0\<lparr>creatable := (\<lambda>path. False)\<rparr>) execution0
             ''/tmp'' ''/nodir/out.log'' [] 10 ''ls'' [] = Return r
          \<and> errs r = [] \<and> exitCode r = 0 \<and> stdout r = None \<and> stderr r = None
          \<and> trace r = [])"
  by (simp add: Execute_def openOutput_def os_OpenFile_def world0_def)

text \<open>
  Claim C7 says that \<open>Execute\<close> returns normally, with an error appended, when a configured
  output file is missing or unreadable after the run. With the file missing (here the
  command removes it) \<open>Execute\<close> panics. With the file unreadable it does return, with
  the error of the failed open in the error set and the other reader intact.
\<close>

theorem Execute_missing_file_panics:
  "Execute host0 world0 (execution0\<lparr>actions := [Remove ''out.log'']\<rparr>)
     ''/tmp'' ''out.log'' [] 10 ''rm'' [''out.log''] = Panic
   \<and> (\<exists>r. Execute host0
             (world0\<lparr>files := [''out.log'' \<mapsto> \<lparr>data = ''old'', readable = False, writable = True\<rparr>]\<rparr>)
             execution0 ''/tmp'' ''out.log'' [] 10 ''true'' [] = Return r
          \<and> errs r = [PathError ''out.log''] \<and> exitCode r = 0
          \<and> stderr r = Some (BytesReader []))"
  by (simp add: Execute_def openOutput_def readOutput_def os_OpenFile_def
      os_Open_def fileutil_Exists_def bytes_NewBuffer_def buffer_Bytes_def
      ExecuteCommand_def child_run_def Let_def execution0_def world0_def)

subsection \<open>StartExe\<close>

lemma configure_writers:
  "Stdout (configure h dir ow ew n a) = ow" "Stderr (configure h dir ow ew n a) = ew"
  by (simp_all add: configure_def prepareEnvironment_def Let_def)

lemma StartCommand_process:
  "fst (StartCommand h w ex dir ow ew n a) =
     (case startErr ex of Some e \<Rightarrow> None | None \<Rightarrow> Some (configure h dir ow ew n a))"
  by (simp add: StartCommand_def Let_def split: option.splits)

lemma StartExe_process:
  "process (StartExe h w ex dir so se n a) = None
   \<or> process (StartExe h w ex dir so se n a) = Some (configure h dir NilFile NilFile n a)"
  by (auto simp: StartExe_def Let_def case_prod_beta StartCommand_process
      split: sum.splits option.splits)

text \<open>
  Claim C8 says that \<open>StartExe\<close> binds the files it opens as the standard output and
  standard error of the process. At this input both files are opened (and created), the
  launch succeeds with exit code 0 and no error, and the process runs with the nil file as
  its standard output and as its standard error. For every input, a process that
  \<open>StartExe\<close> returns has the nil file as both.
\<close>

theorem StartExe_writers_nil:
  "files (world_after (StartExe host0 world0 execution0 ''/tmp'' ''out.log'' ''err.log'' ''ls'' []))
      ''out.log'' = Some \<lparr>data = [], readable = True, writable = True\<rparr>
   \<and> map_option Stdout
        (process (StartExe host0 world0 execution0 ''/tmp'' ''out.log'' ''err.log'' ''ls'' []))
       = Some NilFile
   \<and> map_option Stderr
        (process (StartExe host0 world0 execution0 ''/tmp'' ''out.log'' ''err.log'' ''ls'' []))
       = Some NilFile
   \<and> exitCode (StartExe host0 world0 execution0 ''/tmp'' ''out.log'' ''err.log'' ''ls'' []) = 0
   \<and> errs (StartExe host0 world0 execution0 ''/tmp'' ''out.log'' ''err.log'' ''ls'' []) = []
   \<and> (\<forall>h w ex dir so se n a.
         process (StartExe h w ex dir so se n a) = None
         \<or> (map_option Stdout (process (StartExe h w ex dir so se n a)) = Some NilFile
            \<and> map_option Stderr (process (StartExe h w ex dir so se n a)) = Some NilFile))"
proof -
  have "process (StartExe h w ex dir so se n a) = None
         \<or> (map_option Stdout (process (StartExe h w ex dir so se n a)) = Some NilFile
            \<and> map_option Stderr (process (StartExe h w ex dir so se n a)) = Some NilFile)"
    for h w ex dir so se n a
    using StartExe_process [of h w ex dir so se n a] by (auto simp: configure_writers)
  moreover have
    "files (world_after (StartExe host0 world0 execution0 ''/tmp'' ''out.log'' ''err.log'' ''ls'' []))
      ''out.log'' = Some \<lparr>data = [], readable = True, writable = True\<rparr>
   \<and> map_option Stdout
        (process (StartExe host0 world0 execution0 ''/tmp'' ''out.log'' ''err.log'' ''ls'' []))
       = Some NilFile
   \<and> map_option Stderr
        (process (StartExe host0 world0 execution0 ''/tmp'' ''out.log'' ''err.log'' ''ls'' []))
       = Some NilFile
   \<and> exitCode (StartExe host0 world0 execution0 ''/tmp'' ''out.log'' ''err.log'' ''ls'' []) = 0
   \<and> errs (StartExe host0 world0 execution0 ''/tmp'' ''out.log'' ''err.log'' ''ls'' []) = []"
    by (simp add: StartExe_def StartCommand_def configure_writers
        os_OpenFile_def Let_def execution0_def world0_def)
  ultimately show ?thesis by blast
qed

subsection \<open>Environment\<close>

text \<open>
  Claim C9. When the lookup of the instance id fails, the environment of the child is the
  platform's \<open>validateEnvironmentVariables\<close> applied to exactly the agent's own
  environment followed by the \<open>AWS_SSM_REGION_NAME\<close> entry if the region lookup
  succeeded, and by nothing otherwise: no entry that sets \<open>AWS_SSM_INSTANCE_ID\<close> is
  added. Likewise, when the region lookup fails, it is the agent's own environment followed
  by the \<open>AWS_SSM_INSTANCE_ID\<close> entry if that lookup succeeded. No other field of the
  command changes, and the command is launched with that environment all the same.
\<close>

theorem prepareEnvironment_lookup_failure:
  "(InstanceID h = Inl e \<longrightarrow>
      Env (prepareEnvironment h c) =
        validateEnvironmentVariables h
          (Environ h @ (case Region h of
                          Inr region \<Rightarrow> [fmtEnvVariable envVarRegionName region]
                        | Inl e' \<Rightarrow> []))
      \<and> (\<exists>added. Env (prepareEnvironment h c) = validateEnvironmentVariables h (Environ h @ added)
         \<and> (\<forall>v \<in> set added. \<not> prefix (envVarInstanceId @ ''='') v)))
   \<and> (Region h = Inl e \<longrightarrow>
      Env (prepareEnvironment h c) =
        validateEnvironmentVariables h
          (Environ h @ (case InstanceID h of
                          Inr iid \<Rightarrow> [fmtEnvVariable envVarInstanceId iid]
                        | Inl e' \<Rightarrow> []))
      \<and> (\<exists>added. Env (prepareEnvironment h c) = validateEnvironmentVariables h (Environ h @ added)
         \<and> (\<forall>v \<in> set added. \<not> prefix (envVarRegionName @ ''='') v)))
   \<and> prepareEnvironment h c = c\<lparr>Env := Env (prepareEnvironment h c)\<rparr>
   \<and> Start (configure h dir ow ew n a) \<in> set (trace (ExecuteCommand h w ex dir ow ew t n a))
   \<and> Env (configure h dir ow ew n a) = Env (prepareEnvironment h c)"
proof -
  have inst_eq: "Env (prepareEnvironment h c) =
        validateEnvironmentVariables h
          (Environ h @ (case Region h of
                          Inr region \<Rightarrow> [fmtEnvVariable envVarRegionName region]
                        | Inl e' \<Rightarrow> []))"
    if "InstanceID h = Inl e"
    using that by (simp add: prepareEnvironment_def split: sum.splits)
  have inst: "\<exists>added. Env (prepareEnvironment h c) = validateEnvironmentVariables h (Environ h @ added)
         \<and> (\<forall>v \<in> set added. \<not> prefix (envVarInstanceId @ ''='') v)"
    if fails: "InstanceID h = Inl e"
  proof (intro exI conjI)
    show "Env (prepareEnvironment h c) =
        validateEnvironmentVariables h
          (Environ h @ (case Region h of
                          Inr region \<Rightarrow> [fmtEnvVariable envVarRegionName region]
                        | Inl e' \<Rightarrow> []))"
      by (rule inst_eq [OF fails])
    show "\<forall>v \<in> set (case Region h of
                       Inr region \<Rightarrow> [fmtEnvVariable envVarRegionName region]
                     | Inl e' \<Rightarrow> []). \<not> prefix (envVarInstanceId @ ''='') v"
      by (auto simp: fmtEnvVariable_def envVarRegionName_def envVarInstanceId_def
          split: sum.splits)
  qed
  have reg_eq: "Env (prepareEnvironment h c) =
        validateEnvironmentVariables h
          (Environ h @ (case InstanceID h of
                          Inr iid \<Rightarrow> [fmtEnvVariable envVarInstanceId iid]
                        | Inl e' \<Rightarrow> []))"
    if "Region h = Inl e"
    using that by (simp add: prepareEnvironment_def split: sum.splits)
  have reg: "\<exists>added. Env (prepareEnvironment h c) = validateEnvironmentVariables h (Environ h @ added)
         \<and> (\<forall>v \<in> set added. \<not> prefix (envVarRegionName @ ''='') v)"
    if fails: "Region h = Inl e"
  proof (intro exI conjI)
    show "Env (prepareEnvironment h c) =
        validateEnvironmentVariables h
          (Environ h @ (case InstanceID h of
                          Inr iid \<Rightarrow> [fmtEnvVariable envVarInstanceId iid]
                        | Inl e' \<Rightarrow> []))"
      by (rule reg_eq [OF fails])
    show "\<forall>v \<in> set (case InstanceID h of
                       Inr iid \<Rightarrow> [fmtEnvVariable envVarInstanceId iid]
                     | Inl e' \<Rightarrow> []). \<not> prefix (envVarRegionName @ ''='') v"
      by (auto simp: fmtEnvVariable_def envVarRegionName_def envVarInstanceId_def
          split: sum.splits)
  qed
  have fields: "prepareEnvironment h c = c\<lparr>Env := Env (prepareEnvironment h c)\<rparr>"
    by (simp add: prepareEnvironment_def Let_def)
  have launch: "Start (configure h dir ow ew n a) \<in> set (trace (ExecuteCommand h w ex dir ow ew t n a))"
    by (auto simp: ExecuteCommand_def Let_def split: option.splits error.splits if_splits)
  have env: "Env (configure h dir ow ew n a) = Env (prepareEnvironment h c)"
    by (simp add: configure_def prepareEnvironment_def Let_def)
  show ?thesis
    using inst_eq inst reg_eq reg fields launch env by blast
qed

theorem prepareEnvironment_lookup_failure_witness:
  "InstanceID (host0\<lparr>InstanceID := Inl OtherError\<rparr>) = Inl OtherError
   \<and> Env (configure (host0\<lparr>InstanceID := Inl OtherError\<rparr>) ''/tmp'' NilFile NilFile ''ls'' [])
       = [''PATH=/usr/bin'', ''AWS_SSM_REGION_NAME=us-east-1'']
   \<and> Region (host0\<lparr>Region := Inl OtherError\<rparr>) = Inl OtherError
   \<and> Env (configure (host0\<lparr>Region := Inl OtherError\<rparr>) ''/tmp'' NilFile NilFile ''ls'' [])
       = [''PATH=/usr/bin'', ''AWS_SSM_INSTANCE_ID=i-0abc'']
   \<and> Env (configure (host0\<lparr>InstanceID := Inl OtherError, Region := Inl OtherError\<rparr>)
            ''/tmp'' NilFile NilFile ''ls'' [])
       = [''PATH=/usr/bin'']"
  using
    prepareEnvironment_lookup_failure
      [of "host0\<lparr>InstanceID := Inl OtherError\<rparr>" OtherError
          "\<lparr>Path = ''ls'', Args = [''ls''], Dir = ''/tmp'', Stdout = NilFile, Stderr = NilFile, Env = []\<rparr>"
          "''/tmp''" NilFile NilFile "''ls''" "[]" world0 execution0 10]
    prepareEnvironment_lookup_failure
      [of "host0\<lparr>Region := Inl OtherError\<rparr>" OtherError
          "\<lparr>Path = ''ls'', Args = [''ls''], Dir = ''/tmp'', Stdout = NilFile, Stderr = NilFile, Env = []\<rparr>"
          "''/tmp''" NilFile NilFile "''ls''" "[]" world0 execution0 10]
    prepareEnvironment_lookup_failure
      [of "host0\<lparr>InstanceID := Inl OtherError, Region := Inl OtherError\<rparr>" OtherError
          "\<lparr>Path = ''ls'', Args = [''ls''], Dir = ''/tmp'', Stdout = NilFile, Stderr = NilFile, Env = []\<rparr>"
          "''/tmp''" NilFile NilFile "''ls''" "[]" world0 execution0 10]
  by (simp add: host0_def fmtEnvVariable_def envVarRegionName_def envVarInstanceId_def)

subsection \<open>Script files\<close>

lemma strings_Join_terminated:
  "cs \<noteq> [] \<Longrightarrow> strings_Join cs sep @ sep = concat (map (\<lambda>c. c @ sep) cs)"
  by (induction cs sep rule: strings_Join.induct) auto

text \<open>
  Claim C10. After a successful \<open>CreateScriptFile\<close> the file holds exactly the commands
  joined by newlines, followed by one newline: a single newline for no commands, and
  otherwise every command followed by a newline.
\<close>

theorem CreateScriptFile_content:
  assumes "CreateScriptFile w scriptPath commands = (None, w')"
  shows "map_option data (files w' scriptPath) = Some (strings_Join commands newline @ newline)
     \<and> (commands = [] \<longrightarrow> map_option data (files w' scriptPath) = Some newline)
     \<and> (commands \<noteq> [] \<longrightarrow>
          map_option data (files w' scriptPath)
            = Some (concat (map (\<lambda>c. c @ newline) commands)))"
proof -
  have content: "map_option data (files w' scriptPath)
      = Some (strings_Join commands newline @ newline)"
    using assms
    by (auto simp: CreateScriptFile_def os_Create_def file_WriteString_def Let_def
        split: option.splits if_splits sum.splits prod.splits)
  then show ?thesis
    using strings_Join_terminated [of commands newline] by auto
qed

theorem CreateScriptFile_content_witness:
  "fst (CreateScriptFile world0 ''script.sh'' [''echo a'', ''echo b'']) = None
   \<and> map_option data
        (files (snd (CreateScriptFile world0 ''script.sh'' [''echo a'', ''echo b''])) ''script.sh'')
       = Some (''echo a'' @ newline @ ''echo b'' @ newline)
   \<and> fst (CreateScriptFile world0 ''script.sh'' []) = None
   \<and> map_option data (files (snd (CreateScriptFile world0 ''script.sh'' [])) ''script.sh'')
       = Some newline"
proof -
  have ok: "fst (CreateScriptFile world0 ''script.sh'' cs) = None" for cs
    by (simp add: CreateScriptFile_def os_Create_def file_WriteString_def world0_def)
  show ?thesis
    using ok
      CreateScriptFile_content
        [of world0 "''script.sh''" "[''echo a'', ''echo b'']"
            "snd (CreateScriptFile world0 ''script.sh'' [''echo a'', ''echo b''])"]
      CreateScriptFile_content
        [of world0 "''script.sh''" "[]" "snd (CreateScriptFile world0 ''script.sh'' [])"]
    by (simp add: prod_eq_iff)
qed

end
